theory Spec2Isabelle
  imports
    Complex_Main
    "HOL-Library.Char_ord"
    "HOL-Library.List_Lexorder"
    "HOL-Library.Product_Lexorder"
    "HOL-Library.Sublist"
begin

section \<open>BITS HD admissions analytics: loader, splitter, filter, aggregator\<close>

text \<open>
  The program (\<^verbatim>\<open>src/app.py\<close>) reads a JSON array of survey responses into a table,
  cleans three score columns, derives a combined score, splits the table by admission
  mode, filters it by the sidebar selection and shows grouped statistics.

  Conventions of the embedding.
  \<^item> A table is the list of its rows, in row order; a column operation of the source is
    the same operation on every row.
  \<^item> Scores are exact rationals. The source holds them as binary64 floats; rounding to
    binary64, overflow to infinity and underflow to zero are not part of the model. Where
    the source rounds a mean to two decimals for display, binary64 decides which way a tie
    goes; the model takes that rounding as a parameter.
  \<^item> Texts are \<^typ>\<open>string\<close> and hold ASCII characters; the digits of the pattern \<^verbatim>\<open>\d\<close>
    are the ASCII digits, and texts are ordered character by character, a prefix first.
    Text in other scripts, where Python's \<^verbatim>\<open>\d\<close> also matches the decimal digits of
    that script, is not part of the model.
\<close>

subsection \<open>Numeric cleaning (\<^verbatim>\<open>clean_numeric\<close>, app.py lines 33 to 41)\<close>

text \<open>
  A cell of the raw table: a JSON \<^verbatim>\<open>null\<close>, or any other value, held by the text that
  \<^verbatim>\<open>str\<close> gives for it.
\<close>

datatype raw = Missing | Text string

text \<open>
  \<^verbatim>\<open>s.astype(str)\<close>: a text stays as it is, a missing cell becomes the text \<^verbatim>\<open>None\<close>. (In a
  column that holds numbers only, the missing cell is the float \<^verbatim>\<open>nan\<close> and becomes the text
  \<^verbatim>\<open>nan\<close>, which has no digit either.)
\<close>

fun astype_str :: "raw \<Rightarrow> string" where
  "astype_str Missing = ''None''"
| "astype_str (Text s) = s"

definition is_digit :: "char \<Rightarrow> bool" where
  "is_digit c \<longleftrightarrow> c \<in> set ''0123456789''"

text \<open>
  The greedy match of \<^verbatim>\<open>\d+\.?\d*\<close> at a position whose first character is a digit: all
  digits, then a dot when one follows, then all digits after the dot (possibly none).
\<close>

definition match_here :: "string \<Rightarrow> string" where
  "match_here s =
     (let ip = takeWhile is_digit s; r = dropWhile is_digit s
      in case r of
           [] \<Rightarrow> ip
         | c # r' \<Rightarrow> if c = CHR ''.'' then ip @ [c] @ takeWhile is_digit r' else ip)"

text \<open>
  \<^verbatim>\<open>.str.extract(r"(\d+\.?\d*)")[0]\<close>: the leftmost match, which starts at the first digit
  of the text; no match (a missing value) when the text has no digit.
\<close>

fun str_extract :: "string \<Rightarrow> string option" where
  "str_extract [] = None"
| "str_extract (c # cs) = (if is_digit c then Some (match_here (c # cs)) else str_extract cs)"

definition digit_val :: "char \<Rightarrow> nat" where
  "digit_val c = of_char c - 48"

definition digits_val :: "string \<Rightarrow> nat" where
  "digits_val ds = foldl (\<lambda>a c. 10 * a + digit_val c) 0 ds"

text \<open>
  \<^verbatim>\<open>pd.to_numeric(..., errors="coerce")\<close> on the texts that the extraction can hand over:
  digits, or digits, a dot and digits (possibly none after the dot). Any other text is
  mapped to \<^const>\<open>None\<close> (the coerced missing value); the extraction never produces one
  (lemma \<open>to_numeric_match_here\<close>).
\<close>

definition to_numeric :: "string \<Rightarrow> rat option" where
  "to_numeric s =
     (let ip = takeWhile is_digit s; r = dropWhile is_digit s
      in if ip = [] then None
         else case r of
                [] \<Rightarrow> Some (of_nat (digits_val ip))
              | c # fp \<Rightarrow>
                  if c = CHR ''.'' \<and> list_all is_digit fp
                  then Some (of_nat (digits_val ip) + of_nat (digits_val fp) / 10 ^ length fp)
                  else None)"

text \<open>\<^verbatim>\<open>clean_numeric\<close> on one cell; \<^verbatim>\<open>.fillna(0.0)\<close> turns every missing value into 0.\<close>

definition clean_numeric :: "raw \<Rightarrow> rat" where
  "clean_numeric v =
     (case str_extract (astype_str v) of
        None \<Rightarrow> 0
      | Some m \<Rightarrow> (case to_numeric m of None \<Rightarrow> 0 | Some x \<Rightarrow> x))"

subsection \<open>The specification's numeric extraction\<close>

text \<open>
  The pattern of the specification: one or more digits, optionally followed by a dot and
  one or more digits.
\<close>

definition is_decimal :: "string \<Rightarrow> bool" where
  "is_decimal d \<longleftrightarrow>
     (let ip = takeWhile is_digit d; r = dropWhile is_digit d
      in ip \<noteq> [] \<and>
         (case r of [] \<Rightarrow> True | c # fp \<Rightarrow> c = CHR ''.'' \<and> fp \<noteq> [] \<and> list_all is_digit fp))"

text \<open>The longest text of that pattern at a position whose first character is a digit.\<close>

definition spec_match_here :: "string \<Rightarrow> string" where
  "spec_match_here s =
     (let ip = takeWhile is_digit s; r = dropWhile is_digit s
      in case r of
           [] \<Rightarrow> ip
         | c # r' \<Rightarrow>
             if c = CHR ''.'' \<and> takeWhile is_digit r' \<noteq> []
             then ip @ [c] @ takeWhile is_digit r' else ip)"

text \<open>The first contiguous decimal-number substring of a text, when there is one.\<close>

fun spec_first_decimal :: "string \<Rightarrow> string option" where
  "spec_first_decimal [] = None"
| "spec_first_decimal (c # cs) =
     (if is_digit c then Some (spec_match_here (c # cs)) else spec_first_decimal cs)"

text \<open>The number that a decimal numeral denotes.\<close>

definition decimal_value :: "string \<Rightarrow> rat" where
  "decimal_value d =
     (let ip = takeWhile is_digit d; fp = drop 1 (dropWhile is_digit d)
      in of_nat (digits_val ip) + of_nat (digits_val fp) / 10 ^ length fp)"

definition parseNumeric :: "string \<Rightarrow> rat" where
  "parseNumeric s = (case spec_first_decimal s of None \<Rightarrow> 0 | Some d \<Rightarrow> decimal_value d)"

subsection \<open>The loader (\<^verbatim>\<open>load_data\<close>, app.py lines 15 to 53)\<close>

text \<open>
  A row of the table that \<^verbatim>\<open>pd.DataFrame(raw)\<close> builds from the JSON array, after the
  column labels are stripped and renamed: the five columns the program works on, and
  every other survey field in \<open>others\<close>. The model takes a table that has these five
  columns; a table without one of the three score columns makes the source raise
  \<^verbatim>\<open>KeyError\<close>. Of such tables only the table without rows is in the model: a run on it
  ends in an exception (see \<open>app\<close>).
\<close>

record 'a raw_row =
  GATE_Score_raw :: raw
  HD_Core_raw :: raw
  HD_SS_raw :: raw
  ME_Branch_raw :: raw
  Campus_raw :: raw
  others :: 'a

text \<open>A row of the cleaned table.\<close>

record 'a row =
  GATE_Score :: rat
  HD_Core :: rat
  HD_SS :: rat
  HD_Score :: rat
  ME_Branch :: string
  Campus :: string
  other :: 'a

text \<open>The characters up to code 255 that \<^verbatim>\<open>str.strip()\<close> removes.\<close>

definition is_space :: "char \<Rightarrow> bool" where
  "is_space c \<longleftrightarrow> (of_char c :: nat) \<in> {9, 10, 11, 12, 13, 28, 29, 30, 31, 32, 133, 160}"

definition str_strip :: "string \<Rightarrow> string" where
  "str_strip s = rev (dropWhile is_space (rev (dropWhile is_space s)))"

text \<open>
  The body of \<^verbatim>\<open>load_data\<close> on one row: the three score columns are cleaned, then
  \<^verbatim>\<open>HD Score\<close> is the row-wise maximum of the cleaned \<^verbatim>\<open>HD Core\<close> and \<^verbatim>\<open>HD SS\<close>, then
  the two text columns are converted to text and stripped.
\<close>

definition normalize :: "'a raw_row \<Rightarrow> 'a row" where
  "normalize r =
     (let g = clean_numeric (GATE_Score_raw r);
          c = clean_numeric (HD_Core_raw r);
          s = clean_numeric (HD_SS_raw r)
      in \<lparr> GATE_Score = g, HD_Core = c, HD_SS = s, HD_Score = max c s,
           ME_Branch = str_strip (astype_str (ME_Branch_raw r)),
           Campus = str_strip (astype_str (Campus_raw r)),
           other = others r \<rparr>)"

definition load_data :: "'a raw_row list \<Rightarrow> 'a row list" where
  "load_data raw_rows = map normalize raw_rows"

subsection \<open>The mode splitter (\<^verbatim>\<open>split_modes\<close>, app.py lines 56 to 60)\<close>

text \<open>
  \<^verbatim>\<open>DataFrame.drop_duplicates()\<close>: a row is dropped when a row equal to it in every column
  came before it; the first of equal rows stays, and the rows that stay keep their order.
\<close>

fun drop_seen :: "'r list \<Rightarrow> 'r list \<Rightarrow> 'r list" where
  "drop_seen seen [] = []"
| "drop_seen seen (x # xs) =
     (if x \<in> set seen then drop_seen seen xs else x # drop_seen (x # seen) xs)"

definition drop_duplicates :: "'r list \<Rightarrow> 'r list" where
  "drop_duplicates df = drop_seen [] df"

definition split_modes :: "'a row list \<Rightarrow> 'a row list \<times> 'a row list" where
  "split_modes df =
     (let gate_df = drop_duplicates (filter (\<lambda>r. GATE_Score r > 0) df);
          hd_df = drop_duplicates (filter (\<lambda>r. GATE_Score r = 0 \<and> HD_Score r > 0) df)
      in (gate_df, hd_df))"

subsection \<open>The filter engine (\<^verbatim>\<open>apply_filters\<close>, app.py lines 108 to 112)\<close>

text \<open>
  The three sidebar selections that \<^verbatim>\<open>apply_filters\<close> reads from the module's globals.
  The drilldown is a text; the entry \<^verbatim>\<open>All branches\<close> stands for no drilldown.
\<close>

record filters =
  branch_filter :: "string list"
  campus_filter :: "string list"
  branch_drill :: string

definition apply_filters :: "filters \<Rightarrow> 'a row list \<Rightarrow> 'a row list" where
  "apply_filters f df =
     (let mask = (\<lambda>r. ME_Branch r \<in> set (branch_filter f) \<and> Campus r \<in> set (campus_filter f));
          mask' = (if branch_drill f \<noteq> ''All branches''
                   then (\<lambda>r. mask r \<and> ME_Branch r = branch_drill f) else mask)
      in filter mask' df)"

text \<open>
  The specification's composition law speaks of merging two configurations: the branch
  and campus selections are intersected and the drilldowns combined. Two configurations
  are compatible when their drilldowns do not contradict each other: one of them is not
  set, or both name the same branch.
\<close>

definition drill_set :: "filters \<Rightarrow> bool" where
  "drill_set f \<longleftrightarrow> branch_drill f \<noteq> ''All branches''"

definition compatible :: "filters \<Rightarrow> filters \<Rightarrow> bool" where
  "compatible f1 f2 \<longleftrightarrow> \<not> drill_set f1 \<or> \<not> drill_set f2 \<or> branch_drill f1 = branch_drill f2"

definition merge :: "filters \<Rightarrow> filters \<Rightarrow> filters" where
  "merge f1 f2 =
     \<lparr> branch_filter = filter (\<lambda>b. b \<in> set (branch_filter f2)) (branch_filter f1),
       campus_filter = filter (\<lambda>c. c \<in> set (campus_filter f2)) (campus_filter f1),
       branch_drill = (if drill_set f1 then branch_drill f1 else branch_drill f2) \<rparr>"

subsection \<open>The aggregator (app.py lines 141, 142 and 208 to 295)\<close>

text \<open>
  \<^verbatim>\<open>df.groupby(key)\<close>: the distinct keys in ascending order, each with its rows in table
  order.
\<close>

definition groupby :: "('r \<Rightarrow> 'k::linorder) \<Rightarrow> 'r list \<Rightarrow> ('k \<times> 'r list) list" where
  "groupby key df = map (\<lambda>k. (k, filter (\<lambda>r. key r = k) df)) (sort (remdups (map key df)))"

text \<open>
  \<^verbatim>\<open>format_mean\<close> (lines 141 and 142) is \<^verbatim>\<open>round(float(x), 2)\<close>: the mean, a binary64 number,
  rounded to two decimals. With scores held as exact rationals the model cannot tell which
  of the two neighbouring hundredths binary64 arithmetic gives when the exact mean lies
  half-way between them, as the mean of 30 and 30.01 does. So the rounding is a parameter
  \<open>format_mean\<close> of every definition that uses it, and \<open>two_decimals\<close> says what is taken for
  granted about it: the result is a whole number of hundredths, at most half a hundredth
  away from the argument.
\<close>

definition two_decimals :: "(rat \<Rightarrow> rat) \<Rightarrow> bool" where
  "two_decimals format_mean \<longleftrightarrow>
     (\<forall>x. (\<exists>k::int. format_mean x = of_int k / 100) \<and> \<bar>format_mean x - x\<bar> \<le> 1 / 200)"

definition mean :: "rat list \<Rightarrow> rat" where
  "mean g = sum_list g / of_nat (length g)"

record cutoff_row =
  c_branch :: string
  c_campus :: string
  c_min :: rat
  c_max :: rat
  c_mean :: rat
  c_count :: nat

text \<open>
  The cutoff table of a tab, for the score column of that tab: group by branch and campus,
  aggregate minimum, maximum, mean and count, sort by branch and campus, and round the
  mean column as the last step.
\<close>

definition cutoff :: "(rat \<Rightarrow> rat) \<Rightarrow> ('a row \<Rightarrow> rat) \<Rightarrow> 'a row list \<Rightarrow> cutoff_row list" where
  "cutoff format_mean score df =
     (let agg = map (\<lambda>(k, g).
                  \<lparr> c_branch = fst k, c_campus = snd k,
                    c_min = Min (set (map score g)), c_max = Max (set (map score g)),
                    c_mean = mean (map score g), c_count = length g \<rparr>)
                (groupby (\<lambda>r. (ME_Branch r, Campus r)) df);
          sorted_rows = sort_key (\<lambda>c. (c_branch c, c_campus c)) agg
      in map (\<lambda>c. c\<lparr> c_mean := format_mean (c_mean c) \<rparr>) sorted_rows)"

definition gate_cutoff :: "(rat \<Rightarrow> rat) \<Rightarrow> 'a row list \<Rightarrow> cutoff_row list" where
  "gate_cutoff format_mean gated = cutoff format_mean GATE_Score gated"

definition hd_cutoff :: "(rat \<Rightarrow> rat) \<Rightarrow> 'a row list \<Rightarrow> cutoff_row list" where
  "hd_cutoff format_mean hdd = cutoff format_mean HD_Score hdd"


text \<open>
  The mean score per branch, rounded, in ascending order of the rounded mean. Branches with
  the same rounded mean are kept here in branch order; the source leaves their order to
  the sorting routine.
\<close>

definition branch_mean ::
  "(rat \<Rightarrow> rat) \<Rightarrow> ('a row \<Rightarrow> rat) \<Rightarrow> 'a row list \<Rightarrow> (string \<times> rat) list" where
  "branch_mean format_mean score df =
     sort_key snd (map (\<lambda>(b, g). (b, format_mean (mean (map score g)))) (groupby ME_Branch df))"

text \<open>The number of rows per campus and branch, and per branch.\<close>

definition campus_branch :: "'a row list \<Rightarrow> ((string \<times> string) \<times> nat) list" where
  "campus_branch df = map (\<lambda>(k, g). (k, length g)) (groupby (\<lambda>r. (Campus r, ME_Branch r)) df)"

definition branch_counts :: "'a row list \<Rightarrow> (string \<times> nat) list" where
  "branch_counts df = map (\<lambda>(b, g). (b, length g)) (groupby ME_Branch df)"

subsection \<open>The views (app.py lines 62 to 68 and 128 to 452)\<close>

text \<open>
  What the script puts on the page, in order. Static captions, rules and the page
  configuration are left out; a chart is held by its title and the data it is drawn
  from.
\<close>

datatype metric_value = Whole int | Decimal rat | NotANumber | Share nat nat

datatype 'a element =
    Error string
  | Info string
  | Heading string
  | Select string "string list"
  | Slider string
  | Metric string metric_value
  | Histogram string "rat list" nat
  | BoxPlot string "rat list"
  | CutoffTable "cutoff_row list"
  | MeanBars string "(string \<times> rat) list"
  | CountBars string "((string \<times> string) \<times> nat) list"
  | Pie string "(string \<times> nat) list"
  | RawTable "'a row list"

datatype error = ValueError | ColumnError

text \<open>
  \<^verbatim>\<open>Series.max()\<close>, \<^verbatim>\<open>Series.min()\<close> and \<^verbatim>\<open>Series.mean()\<close>: not a number on an empty column.
\<close>

definition series_max :: "rat list \<Rightarrow> rat option" where
  "series_max col = (if col = [] then None else Some (Max (set col)))"

definition series_min :: "rat list \<Rightarrow> rat option" where
  "series_min col = (if col = [] then None else Some (Min (set col)))"

definition series_mean :: "rat list \<Rightarrow> rat option" where
  "series_mean col = (if col = [] then None else Some (mean col))"

text \<open>\<^verbatim>\<open>int(x)\<close>: truncation towards zero; \<^verbatim>\<open>ValueError\<close> when \<open>x\<close> is not a number.\<close>

definition py_int :: "rat option \<Rightarrow> error + int" where
  "py_int x = (case x of None \<Rightarrow> Inl ValueError
                       | Some q \<Rightarrow> Inr (if 0 \<le> q then \<lfloor>q\<rfloor> else \<lceil>q\<rceil>))"

definition mean_metric :: "(rat \<Rightarrow> rat) \<Rightarrow> rat list \<Rightarrow> metric_value" where
  "mean_metric format_mean col =
     (case series_mean col of None \<Rightarrow> NotANumber | Some m \<Rightarrow> Decimal (format_mean m))"

text \<open>The GATE tab (lines 153 to 295); \<open>bins\<close> is the value of the slider.\<close>

definition tab_gate ::
  "(rat \<Rightarrow> rat) \<Rightarrow> filters \<Rightarrow> nat \<Rightarrow> 'a row list \<Rightarrow> error + 'a element list" where
  "tab_gate format_mean f bins gate_df =
     (let gated = apply_filters f gate_df
      in if gated = []
         then Inr [Heading ''GATE Admissions Analysis'',
                   Info ''No GATE admissions match the current filters.'']
         else
           (case py_int (series_max (map GATE_Score gated)) of
              Inl e \<Rightarrow> Inl e
            | Inr hi \<Rightarrow>
                (case py_int (series_min (map GATE_Score gated)) of
                   Inl e \<Rightarrow> Inl e
                 | Inr lo \<Rightarrow>
                     Inr [Heading ''GATE Admissions Analysis'',
                          Metric ''Total GATE Entries'' (Whole (int (length gated))),
                          Metric ''Average GATE Score'' (mean_metric format_mean (map GATE_Score gated)),
                          Metric ''Highest GATE Score'' (Whole hi),
                          Metric ''Lowest GATE Score'' (Whole lo),
                          Heading ''### GATE Score Distribution'',
                          Slider ''Histogram bins (GATE)'',
                          Histogram ''GATE Score Distribution'' (map GATE_Score gated) bins,
                          BoxPlot ''Score Spread'' (map GATE_Score gated),
                          Heading ''### Branch & Campus-level Cutoffs'',
                          CutoffTable (gate_cutoff format_mean gated),
                          Heading ''### Average GATE Score by Branch'',
                          MeanBars ''Average GATE Score by Branch'' (branch_mean format_mean GATE_Score gated),
                          Heading ''### Campus Distribution (GATE)'',
                          CountBars ''GATE Entries per Campus by Branch'' (campus_branch gated),
                          Pie ''GATE Share by Branch (all campuses)'' (branch_counts gated)])))"

text \<open>The BITS-HD tab (lines 298 to 440).\<close>

definition tab_hd ::
  "(rat \<Rightarrow> rat) \<Rightarrow> filters \<Rightarrow> nat \<Rightarrow> 'a row list \<Rightarrow> error + 'a element list" where
  "tab_hd format_mean f bins_hd hd_df =
     (let hdd = apply_filters f hd_df
      in if hdd = []
         then Inr [Heading ''BITS-HD Test Admissions Analysis'',
                   Info ''No BITS-HD test admissions match the current filters.'']
         else
           (case py_int (series_max (map HD_Score hdd)) of
              Inl e \<Rightarrow> Inl e
            | Inr hi \<Rightarrow>
                (case py_int (series_min (map HD_Score hdd)) of
                   Inl e \<Rightarrow> Inl e
                 | Inr lo \<Rightarrow>
                     Inr [Heading ''BITS-HD Test Admissions Analysis'',
                          Metric ''Total HD Entries'' (Whole (int (length hdd))),
                          Metric ''Average HD Score'' (mean_metric format_mean (map HD_Score hdd)),
                          Metric ''Highest HD Score'' (Whole hi),
                          Metric ''Lowest HD Score'' (Whole lo),
                          Heading ''### BITS-HD Score Distribution'',
                          Slider ''Histogram bins (HD)'',
                          Histogram ''BITS-HD Score Distribution'' (map HD_Score hdd) bins_hd,
                          BoxPlot ''Score Spread'' (map HD_Score hdd),
                          Heading ''### Branch & Campus-level Cutoffs'',
                          CutoffTable (hd_cutoff format_mean hdd),
                          Heading ''### Average HD Score by Branch'',
                          MeanBars ''Average HD Score by Branch'' (branch_mean format_mean HD_Score hdd),
                          Heading ''### Campus Distribution (BITS-HD)'',
                          CountBars ''HD Entries per Campus by Branch'' (campus_branch hdd),
                          Pie ''HD Share by Branch (all campuses)'' (branch_counts hdd)])))"

text \<open>
  One run of the script. \<open>data_file\<close> is the table in the file at \<^verbatim>\<open>DATA_PATH\<close>, or
  \<^const>\<open>None\<close> when there is no file at that path; the other fields are the values the
  widgets return.
\<close>

record 'a session =
  data_file :: "'a raw_row list option"
  selected_mode :: string
  sidebar :: filters
  gate_bins :: nat
  hd_bins :: nat

definition DATA_PATH :: string where
  "DATA_PATH = ''bits_hd_2024_clean.json''"

text \<open>
  How a run ends: halted by \<^verbatim>\<open>st.stop()\<close>, ended by an exception, or run to the last line;
  with the elements on the page. A file that holds the empty array gives a table without
  columns, and \<^verbatim>\<open>load_data\<close> raises when it reaches for the columns of that table.
\<close>

datatype 'a outcome = Stopped "'a element list" | Raised error | Rendered "'a element list"

definition app :: "(rat \<Rightarrow> rat) \<Rightarrow> 'a session \<Rightarrow> 'a outcome" where
  "app format_mean s =
     (case data_file s of
        None \<Rightarrow> Stopped [Error (''Data file not found: '' @ DATA_PATH)]
      | Some [] \<Rightarrow> Raised ColumnError
      | Some raw_rows \<Rightarrow>
          (let df = load_data raw_rows;
               (gate_df, hd_df) = split_modes df;
               all_branches = sort (remdups (map ME_Branch df));
               all_campuses = sort (remdups (map Campus df));
               f = sidebar s;
               top =
                 [Heading ''Filters'',
                  Select ''Admission mode'' [''All'', ''GATE only'', ''BITS-HD Test only''],
                  Select ''ME / M.Pharm Branch'' all_branches,
                  Select ''Campus'' all_campuses,
                  Select ''Branch drilldown'' (''All branches'' # all_branches),
                  Heading ''BITS HD Admissions Analytics (2024)'',
                  Metric ''Total Records'' (Whole (int (length df))),
                  Metric ''Unique Branches'' (Whole (int (length (remdups (map ME_Branch df))))),
                  Metric ''Unique Campuses'' (Whole (int (length (remdups (map Campus df))))),
                  Metric ''GATE vs HD Share'' (Share (length gate_df) (length hd_df))]
                 @ (if branch_drill f \<noteq> ''All branches''
                    then [Info (''Branch drilldown active: '' @ branch_drill f)] else [])
           in case tab_gate format_mean f (gate_bins s) gate_df of
                Inl e \<Rightarrow> Raised e
              | Inr gate_page \<Rightarrow>
                  (case tab_hd format_mean f (hd_bins s) hd_df of
                     Inl e \<Rightarrow> Raised e
                   | Inr hd_page \<Rightarrow>
                       (let combined =
                              (if selected_mode s = ''GATE only'' then apply_filters f gate_df
                               else if selected_mode s = ''BITS-HD Test only'' then apply_filters f hd_df
                               else apply_filters f df)
                        in Rendered (top @ gate_page @ hd_page @
                             [Heading ''Raw Data (after filters)'', RawTable combined])))))"

subsection \<open>Sample data\<close>

definition sample_row :: "string \<Rightarrow> string \<Rightarrow> rat \<Rightarrow> rat \<Rightarrow> unit row" where
  "sample_row b c g h =
     \<lparr> GATE_Score = g, HD_Core = h, HD_SS = 0, HD_Score = h, ME_Branch = b, Campus = c,
       other = () \<rparr>"

definition sample_df :: "unit row list" where
  "sample_df =
     [sample_row ''CS'' ''Pilani'' 70 0, sample_row ''CS'' ''Goa'' 60 0,
      sample_row ''CS'' ''Pilani'' 80 0, sample_row ''EE'' ''Goa'' 0 55,
      sample_row ''CS'' ''Goa'' 60 0, sample_row ''EE'' ''Hyderabad'' 0 0]"

definition sample_raw :: "unit raw_row" where
  "sample_raw =
     \<lparr> GATE_Score_raw = Text ''0'', HD_Core_raw = Text ''120 marks'', HD_SS_raw = Missing,
       ME_Branch_raw = Text '' CS '', Campus_raw = Text ''Goa'', others = () \<rparr>"

definition sample_filters :: "string list \<Rightarrow> string list \<Rightarrow> string \<Rightarrow> filters" where
  "sample_filters bs cs d = \<lparr> branch_filter = bs, campus_filter = cs, branch_drill = d \<rparr>"


text \<open>
  One rounding to two decimals, which breaks ties towards the even hundredth; the samples
  are run with it.
\<close>

definition round_half_even :: "rat \<Rightarrow> int" where
  "round_half_even y =
     (let f = \<lfloor>y\<rfloor>; d = y - of_int f
      in if d < 1 / 2 then f else if 1 / 2 < d then f + 1 else if even f then f else f + 1)"

definition sample_round :: "rat \<Rightarrow> rat" where
  "sample_round x = of_int (round_half_even (x * 100)) / 100"


section \<open>Numeric cleaning\<close>

lemma not_digit_dot: "\<not> is_digit CHR ''.''"
  by (simp add: is_digit_def)

lemma takeWhile_digits_dot:
  "list_all is_digit ip \<Longrightarrow> takeWhile is_digit (ip @ CHR ''.'' # fp) = ip"
  by (induction ip) (simp_all add: not_digit_dot)

lemma dropWhile_digits_dot:
  "list_all is_digit ip \<Longrightarrow> dropWhile is_digit (ip @ CHR ''.'' # fp) = CHR ''.'' # fp"
  by (induction ip) (simp_all add: not_digit_dot)

lemma list_all_takeWhile: "list_all P (takeWhile P xs)"
  by (induction xs) simp_all

lemma takeWhile_all: "list_all P xs \<Longrightarrow> takeWhile P xs = xs"
  by (induction xs) simp_all

lemma dropWhile_all: "list_all P xs \<Longrightarrow> dropWhile P xs = []"
  by (induction xs) simp_all

lemma takeWhile_all_append: "list_all P xs \<Longrightarrow> takeWhile P (xs @ ys) = xs @ takeWhile P ys"
  by (induction xs) simp_all

lemma digits_val_Nil: "digits_val [] = 0"
  by (simp add: digits_val_def)

text \<open>The values that \<^const>\<open>to_numeric\<close> and \<^const>\<open>decimal_value\<close> give to the two shapes of a match.\<close>

lemma to_numeric_digits:
  "ip \<noteq> [] \<Longrightarrow> list_all is_digit ip \<Longrightarrow> to_numeric ip = Some (of_nat (digits_val ip))"
  by (simp add: to_numeric_def takeWhile_all dropWhile_all)

lemma to_numeric_digits_dot:
  "ip \<noteq> [] \<Longrightarrow> list_all is_digit ip \<Longrightarrow> list_all is_digit fp \<Longrightarrow>
   to_numeric (ip @ CHR ''.'' # fp) =
     Some (of_nat (digits_val ip) + of_nat (digits_val fp) / 10 ^ length fp)"
  by (simp add: to_numeric_def takeWhile_digits_dot dropWhile_digits_dot)

lemma decimal_value_digits:
  "list_all is_digit ip \<Longrightarrow> decimal_value ip = of_nat (digits_val ip)"
  by (simp add: decimal_value_def takeWhile_all dropWhile_all digits_val_Nil)

lemma decimal_value_digits_dot:
  "list_all is_digit ip \<Longrightarrow>
   decimal_value (ip @ CHR ''.'' # fp) =
     of_nat (digits_val ip) + of_nat (digits_val fp) / 10 ^ length fp"
  by (simp add: decimal_value_def takeWhile_digits_dot dropWhile_digits_dot)

text \<open>
  The match of the source may end in a dot that the pattern of the specification leaves
  out; both texts denote the same number, and \<^const>\<open>to_numeric\<close> never fails on a match.
\<close>

lemma to_numeric_match_here:
  assumes "is_digit c"
  shows "to_numeric (match_here (c # cs)) = Some (decimal_value (spec_match_here (c # cs)))"
proof -
  let ?s = "c # cs"
  let ?ip = "takeWhile is_digit ?s"
  have ne: "?ip \<noteq> []" using assms by simp
  have dg: "list_all is_digit ?ip" by (rule list_all_takeWhile)
  have whole: "to_numeric (match_here ?s) = Some (decimal_value (spec_match_here ?s))"
    if m: "match_here ?s = ?ip" and sm: "spec_match_here ?s = ?ip"
  proof -
    have "to_numeric (match_here ?s) = Some (of_nat (digits_val ?ip))"
      unfolding m using ne dg by (rule to_numeric_digits)
    moreover have "decimal_value (spec_match_here ?s) = of_nat (digits_val ?ip)"
      unfolding sm using dg by (rule decimal_value_digits)
    ultimately show ?thesis by (simp only:)
  qed
  show ?thesis
  proof (cases "dropWhile is_digit ?s")
    case Nil
    have "match_here ?s = ?ip" "spec_match_here ?s = ?ip"
      unfolding match_here_def spec_match_here_def Let_def Nil by simp_all
    then show ?thesis by (rule whole)
  next
    case (Cons d r')
    let ?fp = "takeWhile is_digit r'"
    have fd: "list_all is_digit ?fp" by (rule list_all_takeWhile)
    show ?thesis
    proof (cases "d = CHR ''.''")
      case False
      then have "match_here ?s = ?ip" "spec_match_here ?s = ?ip"
        unfolding match_here_def spec_match_here_def Let_def Cons by simp_all
      then show ?thesis by (rule whole)
    next
      case True
      have m: "match_here ?s = ?ip @ CHR ''.'' # ?fp"
        unfolding match_here_def Let_def Cons using True by simp
      have v: "to_numeric (match_here ?s) =
          Some (of_nat (digits_val ?ip) + of_nat (digits_val ?fp) / 10 ^ length ?fp)"
        unfolding m using ne dg fd by (rule to_numeric_digits_dot)
      show ?thesis
      proof (cases "?fp = []")
        case True
        then have sm: "spec_match_here ?s = ?ip"
          unfolding spec_match_here_def Let_def Cons by simp
        have "decimal_value (spec_match_here ?s) = of_nat (digits_val ?ip)"
          unfolding sm using dg by (rule decimal_value_digits)
        then show ?thesis
          unfolding v True by (simp add: digits_val_Nil del: takeWhile.simps)
      next
        case False
        then have sm: "spec_match_here ?s = ?ip @ CHR ''.'' # ?fp"
          unfolding spec_match_here_def Let_def Cons using True by simp
        have "decimal_value (spec_match_here ?s) =
            of_nat (digits_val ?ip) + of_nat (digits_val ?fp) / 10 ^ length ?fp"
          unfolding sm using dg by (rule decimal_value_digits_dot)
        then show ?thesis unfolding v by (simp only:)
      qed
    qed
  qed
qed

lemma clean_numeric_parseNumeric: "clean_numeric v = parseNumeric (astype_str v)"
proof -
  have "(case str_extract s of None \<Rightarrow> 0
         | Some m \<Rightarrow> (case to_numeric m of None \<Rightarrow> 0 | Some x \<Rightarrow> x)) = parseNumeric s" for s
    by (induction s)
      (simp_all add: parseNumeric_def to_numeric_match_here del: takeWhile.simps dropWhile.simps)
  then show ?thesis by (simp add: clean_numeric_def)
qed

lemma decimal_value_nonneg: "0 \<le> decimal_value d"
  by (simp add: decimal_value_def Let_def)

lemma parseNumeric_nonneg: "0 \<le> parseNumeric s"
  by (simp add: parseNumeric_def decimal_value_nonneg split: option.split)

lemma spec_first_decimal_None: "spec_first_decimal s = None \<longleftrightarrow> \<not> list_ex is_digit s"
  by (induction s) simp_all

lemma clean_numeric_no_digit: "\<not> list_ex is_digit (astype_str v) \<Longrightarrow> clean_numeric v = 0"
  by (simp add: clean_numeric_parseNumeric parseNumeric_def spec_first_decimal_None [symmetric])

text \<open>The texts of the specification's pattern have one of two shapes.\<close>

lemma is_decimal_digits: "ip \<noteq> [] \<Longrightarrow> list_all is_digit ip \<Longrightarrow> is_decimal ip"
  by (simp add: is_decimal_def takeWhile_all dropWhile_all)

lemma is_decimal_digits_dot:
  "ip \<noteq> [] \<Longrightarrow> list_all is_digit ip \<Longrightarrow> fp \<noteq> [] \<Longrightarrow> list_all is_digit fp \<Longrightarrow>
   is_decimal (ip @ CHR ''.'' # fp)"
  by (simp add: is_decimal_def takeWhile_digits_dot dropWhile_digits_dot)

lemma is_decimal_cases:
  assumes "is_decimal e"
  obtains (whole) "e \<noteq> []" "list_all is_digit e"
    | (frac) ip fp where "e = ip @ CHR ''.'' # fp" "ip \<noteq> []" "list_all is_digit ip"
        "fp \<noteq> []" "list_all is_digit fp"
proof (cases "dropWhile is_digit e")
  case Nil
  then have "list_all is_digit e"
    by (metis list_all_takeWhile takeWhile_dropWhile_id append_Nil2)
  moreover have "e \<noteq> []" using assms by (auto simp: is_decimal_def Let_def)
  ultimately show ?thesis using whole by blast
next
  case (Cons c fp)
  with assms have c: "c = CHR ''.''" and fp: "fp \<noteq> []" "list_all is_digit fp"
    and ip: "takeWhile is_digit e \<noteq> []"
    by (simp_all add: is_decimal_def Let_def)
  have "e = takeWhile is_digit e @ CHR ''.'' # fp"
    using Cons c takeWhile_dropWhile_id [of is_digit e] by simp
  then show ?thesis using ip fp list_all_takeWhile [of is_digit e] frac by blast
qed

text \<open>
  At a digit, \<^const>\<open>spec_match_here\<close> is a text of the pattern that starts there, and the
  longest one.
\<close>

lemma spec_match_here_first:
  assumes "is_digit c"
  shows "prefix (spec_match_here (c # cs)) (c # cs)"
    and "is_decimal (spec_match_here (c # cs))"
    and "prefix e (c # cs) \<Longrightarrow> is_decimal e \<Longrightarrow> length e \<le> length (spec_match_here (c # cs))"
proof -
  let ?s = "c # cs"
  let ?ip = "takeWhile is_digit ?s"
  let ?r = "dropWhile is_digit ?s"
  have ne: "?ip \<noteq> []" using assms by simp
  have dg: "list_all is_digit ?ip" by (rule list_all_takeWhile)
  have s: "?s = ?ip @ ?r" by (simp del: takeWhile.simps dropWhile.simps)
  have ip_le: "length ?ip \<le> length (spec_match_here ?s)"
    by (simp add: spec_match_here_def Let_def del: takeWhile.simps dropWhile.simps
        split: list.split)
  show "prefix (spec_match_here ?s) ?s"
  proof (cases ?r)
    case Nil
    have "spec_match_here ?s = ?ip"
      unfolding spec_match_here_def Let_def Nil by simp
    then show ?thesis by (simp only: takeWhile_is_prefix)
  next
    case (Cons d r')
    have "prefix (?ip @ d # takeWhile is_digit r') (?ip @ d # r')"
      by (simp add: takeWhile_is_prefix)
    then have long: "prefix (?ip @ d # takeWhile is_digit r') ?s"
      using s Cons by metis
    have "spec_match_here ?s = ?ip @ d # takeWhile is_digit r' \<or> spec_match_here ?s = ?ip"
      unfolding spec_match_here_def Let_def Cons by simp
    then show ?thesis using long takeWhile_is_prefix [of is_digit ?s] by metis
  qed
  show "is_decimal (spec_match_here ?s)"
    using ne dg
    by (simp add: spec_match_here_def Let_def is_decimal_digits is_decimal_digits_dot
        list_all_takeWhile del: takeWhile.simps dropWhile.simps split: list.split)
  show "length e \<le> length (spec_match_here ?s)" if pre: "prefix e ?s" and dec: "is_decimal e"
    using dec
  proof (cases rule: is_decimal_cases)
    case whole
    from pre obtain t where t: "?s = e @ t" by (auto simp: prefix_def)
    have "?ip = e @ takeWhile is_digit t"
      unfolding t using whole(2) by (rule takeWhile_all_append)
    then have "length e \<le> length ?ip" by simp
    then show ?thesis using ip_le by linarith
  next
    case (frac ip fp)
    from pre obtain t where t: "?s = ip @ CHR ''.'' # (fp @ t)"
      by (auto simp: prefix_def frac(1))
    have ip: "?ip = ip" unfolding t using frac(3) by (rule takeWhile_digits_dot)
    have r: "?r = CHR ''.'' # (fp @ t)" unfolding t using frac(3) by (rule dropWhile_digits_dot)
    have tw: "takeWhile is_digit (fp @ t) = fp @ takeWhile is_digit t"
      using frac(5) by (rule takeWhile_all_append)
    have "spec_match_here ?s = ip @ CHR ''.'' # fp @ takeWhile is_digit t"
      using frac(4)
      by (simp add: spec_match_here_def Let_def ip r tw del: takeWhile.simps dropWhile.simps)
    then show ?thesis by (simp add: frac(1))
  qed
qed

text \<open>
  \<^const>\<open>spec_first_decimal\<close> is the first decimal-number substring: no digit stands before
  it, it has the pattern, and no text of the pattern that starts at the same place is
  longer.
\<close>

lemma spec_first_decimal_first:
  assumes "spec_first_decimal s = Some d"
  shows "\<exists>pre post. s = pre @ d @ post \<and> \<not> list_ex is_digit pre \<and> is_decimal d \<and>
           (\<forall>e. prefix e (d @ post) \<and> is_decimal e \<longrightarrow> length e \<le> length d)"
  using assms
proof (induction s)
  case Nil
  then show ?case by simp
next
  case (Cons c cs)
  show ?case
  proof (cases "is_digit c")
    case True
    with Cons.prems have d: "d = spec_match_here (c # cs)" by simp
    from spec_match_here_first(1) [OF True, of cs] obtain post where post: "c # cs = d @ post"
      by (auto simp: prefix_def d)
    have "is_decimal d" unfolding d using True by (rule spec_match_here_first(2))
    moreover have "\<forall>e. prefix e (d @ post) \<and> is_decimal e \<longrightarrow> length e \<le> length d"
      using spec_match_here_first(3) [OF True, of _ cs] post d by metis
    ultimately show ?thesis using post by (intro exI [of _ "[]"] exI [of _ post]) simp
  next
    case False
    with Cons.prems have "spec_first_decimal cs = Some d" by simp
    from Cons.IH [OF this] obtain pre post where
      "cs = pre @ d @ post" "\<not> list_ex is_digit pre" "is_decimal d"
      "\<forall>e. prefix e (d @ post) \<and> is_decimal e \<longrightarrow> length e \<le> length d"
      by blast
    then show ?thesis using False
      by (intro exI [of _ "c # pre"] exI [of _ post]) simp
  qed
qed

lemma clean_numeric_sample: "clean_numeric (Text ''55.5 (General)'') = 111 / 2"
  by (simp add: clean_numeric_def match_here_def to_numeric_def is_digit_def digits_val_def
      digit_val_def)

text \<open>
  C1. For every raw field value, \<^const>\<open>clean_numeric\<close> returns the number denoted by the first
  contiguous decimal-number substring of the value's text (one or more digits, optionally
  a dot and more digits): no digit stands before that substring, and it is the longest
  text of the pattern at its place. When the text has no such substring, which is when it
  has no digit, the result is 0. The result is never negative, and the value
  \<^verbatim>\<open>55.5 (General)\<close> is parsed to 55.5.
\<close>

theorem clean_numeric_first_decimal:
  "(case spec_first_decimal (astype_str v) of
      None \<Rightarrow> clean_numeric v = 0
    | Some d \<Rightarrow>
        clean_numeric v = decimal_value d \<and>
        (\<exists>pre post. astype_str v = pre @ d @ post \<and> \<not> list_ex is_digit pre \<and> is_decimal d \<and>
           (\<forall>e. prefix e (d @ post) \<and> is_decimal e \<longrightarrow> length e \<le> length d))) \<and>
   (spec_first_decimal (astype_str v) = None \<longleftrightarrow> \<not> list_ex is_digit (astype_str v)) \<and>
   0 \<le> clean_numeric v \<and>
   clean_numeric (Text ''55.5 (General)'') = 111 / 2"
proof (intro conjI)
  show "case spec_first_decimal (astype_str v) of
      None \<Rightarrow> clean_numeric v = 0
    | Some d \<Rightarrow>
        clean_numeric v = decimal_value d \<and>
        (\<exists>pre post. astype_str v = pre @ d @ post \<and> \<not> list_ex is_digit pre \<and> is_decimal d \<and>
           (\<forall>e. prefix e (d @ post) \<and> is_decimal e \<longrightarrow> length e \<le> length d))"
  proof (cases "spec_first_decimal (astype_str v)")
    case None
    then show ?thesis by (simp add: clean_numeric_parseNumeric parseNumeric_def)
  next
    case (Some d)
    then show ?thesis
      using spec_first_decimal_first [OF Some]
      by (simp add: clean_numeric_parseNumeric parseNumeric_def)
  qed
  show "spec_first_decimal (astype_str v) = None \<longleftrightarrow> \<not> list_ex is_digit (astype_str v)"
    by (rule spec_first_decimal_None)
  show "0 \<le> clean_numeric v"
    by (simp add: clean_numeric_parseNumeric parseNumeric_nonneg)
  show "clean_numeric (Text ''55.5 (General)'') = 111 / 2"
    by (rule clean_numeric_sample)
qed

theorem clean_numeric_first_decimal_witness:
  "spec_first_decimal (astype_str (Text ''ab 5.25x'')) = Some ''5.25'' \<and>
   clean_numeric (Text ''ab 5.25x'') = 21 / 4 \<and>
   prefix ''5'' ''5.25x'' \<and> is_decimal ''5'' \<and> length ''5'' \<le> length ''5.25''"
proof -
  have ev: "spec_first_decimal (astype_str (Text ''ab 5.25x'')) = Some ''5.25''"
    by (simp add: spec_match_here_def is_digit_def)
  have dv: "decimal_value ''5.25'' = 21 / 4"
    by (simp add: decimal_value_def is_digit_def digits_val_def digit_val_def)
  have dec: "is_decimal ''5''"
    by (simp add: is_decimal_def is_digit_def)
  from clean_numeric_first_decimal [of "Text ''ab 5.25x''"]
  obtain pre post where
    val: "clean_numeric (Text ''ab 5.25x'') = decimal_value ''5.25''" and
    longest: "\<forall>e. prefix e (''5.25'' @ post) \<and> is_decimal e \<longrightarrow> length e \<le> length ''5.25''"
    unfolding ev by auto
  have "prefix ''5'' (''5.25'' @ post)" by simp
  with longest dec have "length ''5'' \<le> length ''5.25''" by blast
  then show ?thesis using ev val dv dec by simp
qed

section \<open>The loader\<close>

text \<open>
  C2. In the output of the loader every record's \<open>HD Score\<close> is the maximum of that
  record's parsed \<open>HD Core\<close> and \<open>HD SS\<close>, which are the cleaned raw fields of the
  input record at the same position.
\<close>

theorem load_data_hd_score:
  "length (load_data raw_rows) = length raw_rows \<and>
   (\<forall>i < length raw_rows.
      HD_Core (load_data raw_rows ! i) = clean_numeric (HD_Core_raw (raw_rows ! i)) \<and>
      HD_SS (load_data raw_rows ! i) = clean_numeric (HD_SS_raw (raw_rows ! i)) \<and>
      HD_Score (load_data raw_rows ! i) =
        max (HD_Core (load_data raw_rows ! i)) (HD_SS (load_data raw_rows ! i))) \<and>
   (\<forall>r \<in> set (load_data raw_rows). HD_Score r = max (HD_Core r) (HD_SS r))"
  by (auto simp add: load_data_def normalize_def Let_def)

lemma normalize_sample_raw:
  "normalize sample_raw =
     \<lparr> GATE_Score = 0, HD_Core = 120, HD_SS = 0, HD_Score = 120, ME_Branch = ''CS'',
       Campus = ''Goa'', other = () \<rparr>"
  by (simp add: normalize_def sample_raw_def clean_numeric_def match_here_def to_numeric_def
      is_digit_def digits_val_def digit_val_def str_strip_def is_space_def)

theorem load_data_hd_score_witness:
  "(0::nat) < length [sample_raw] \<and>
   load_data [sample_raw] ! 0 \<in> set (load_data [sample_raw]) \<and>
   HD_Core (load_data [sample_raw] ! 0) = 120 \<and>
   HD_SS (load_data [sample_raw] ! 0) = 0 \<and>
   HD_Score (load_data [sample_raw] ! 0) = 120"
  using load_data_hd_score [of "[sample_raw]"]
  by (simp add: load_data_def normalize_sample_raw)

section \<open>The mode splitter\<close>

lemma set_drop_seen: "set (drop_seen seen xs) = set xs - set seen"
  by (induction xs arbitrary: seen) auto

lemma distinct_drop_seen: "distinct (drop_seen seen xs)"
  by (induction xs arbitrary: seen) (auto simp: set_drop_seen)

lemma subseq_drop_seen: "subseq (drop_seen seen xs) xs"
  by (induction xs arbitrary: seen) auto

lemma set_drop_duplicates: "set (drop_duplicates xs) = set xs"
  by (simp add: drop_duplicates_def set_drop_seen)

lemma distinct_drop_duplicates: "distinct (drop_duplicates xs)"
  by (simp add: drop_duplicates_def distinct_drop_seen)

lemma subseq_drop_duplicates_filter: "subseq (drop_duplicates (filter P xs)) xs"
proof -
  have "subseq (drop_duplicates (filter P xs)) (filter P xs)"
    by (simp add: drop_duplicates_def subseq_drop_seen)
  moreover have "subseq (filter P xs) xs" by (rule subseq_filter_left)
  ultimately show ?thesis by (rule subseq_order.order_trans)
qed

lemma split_modes_sample:
  "split_modes sample_df =
     ([sample_row ''CS'' ''Pilani'' 70 0, sample_row ''CS'' ''Goa'' 60 0,
       sample_row ''CS'' ''Pilani'' 80 0],
      [sample_row ''EE'' ''Goa'' 0 55])"
  by (simp add: split_modes_def sample_df_def sample_row_def drop_duplicates_def)

text \<open>
  C3. The GATE subset holds exactly the records with a GATE score above 0, the HD subset
  exactly the records with a GATE score of 0 and an HD score above 0; neither subset has
  two equal records (equal in every field), and each is a subsequence of the input, so the
  records that stay keep their input order.
\<close>

theorem split_modes_subsets:
  "set (fst (split_modes df)) = {r \<in> set df. GATE_Score r > 0} \<and>
   set (snd (split_modes df)) = {r \<in> set df. GATE_Score r = 0 \<and> HD_Score r > 0} \<and>
   distinct (fst (split_modes df)) \<and> distinct (snd (split_modes df)) \<and>
   subseq (fst (split_modes df)) df \<and> subseq (snd (split_modes df)) df"
  by (simp add: split_modes_def set_drop_duplicates distinct_drop_duplicates
      subseq_drop_duplicates_filter)

theorem split_modes_subsets_witness:
  "set [sample_row ''CS'' ''Pilani'' 70 0, sample_row ''CS'' ''Goa'' 60 0,
        sample_row ''CS'' ''Pilani'' 80 0] = {r \<in> set sample_df. GATE_Score r > 0} \<and>
   set [sample_row ''EE'' ''Goa'' 0 55] =
     {r \<in> set sample_df. GATE_Score r = 0 \<and> HD_Score r > 0} \<and>
   subseq [sample_row ''CS'' ''Pilani'' 70 0, sample_row ''CS'' ''Goa'' 60 0,
           sample_row ''CS'' ''Pilani'' 80 0] sample_df"
  using split_modes_subsets [of sample_df]
  by (simp only: split_modes_sample fst_conv snd_conv)

text \<open>
  C4. The two subsets are disjoint; every record of either subset satisfies exactly one of
  "GATE score above 0" and "GATE score 0 and HD score above 0"; a record with both scores
  0 is in neither subset.
\<close>

theorem split_modes_disjoint:
  "set (fst (split_modes df)) \<inter> set (snd (split_modes df)) = {} \<and>
   (\<forall>r \<in> set (fst (split_modes df)) \<union> set (snd (split_modes df)).
      (GATE_Score r > 0) \<noteq> (GATE_Score r = 0 \<and> HD_Score r > 0)) \<and>
   (\<forall>r. GATE_Score r = 0 \<and> HD_Score r = 0 \<longrightarrow>
      r \<notin> set (fst (split_modes df)) \<and> r \<notin> set (snd (split_modes df)))"
  by (auto simp add: split_modes_def set_drop_duplicates)

theorem split_modes_disjoint_witness:
  "sample_row ''EE'' ''Hyderabad'' 0 0 \<in> set sample_df \<and>
   GATE_Score (sample_row ''EE'' ''Hyderabad'' 0 0) = 0 \<and>
   HD_Score (sample_row ''EE'' ''Hyderabad'' 0 0) = 0 \<and>
   sample_row ''EE'' ''Hyderabad'' 0 0 \<notin> set (fst (split_modes sample_df)) \<and>
   sample_row ''EE'' ''Hyderabad'' 0 0 \<notin> set (snd (split_modes sample_df)) \<and>
   sample_row ''EE'' ''Goa'' 0 55 \<in> set (fst (split_modes sample_df)) \<union> set (snd (split_modes sample_df)) \<and>
   (GATE_Score (sample_row ''EE'' ''Goa'' 0 55) > 0) \<noteq>
     (GATE_Score (sample_row ''EE'' ''Goa'' 0 55) = 0 \<and> HD_Score (sample_row ''EE'' ''Goa'' 0 55) > 0)"
proof -
  have zero: "GATE_Score (sample_row ''EE'' ''Hyderabad'' 0 0) = 0 \<and>
      HD_Score (sample_row ''EE'' ''Hyderabad'' 0 0) = 0"
    by (simp add: sample_row_def)
  have mem: "sample_row ''EE'' ''Hyderabad'' 0 0 \<in> set sample_df"
    by (simp add: sample_df_def)
  have hd: "sample_row ''EE'' ''Goa'' 0 55 \<in>
      set (fst (split_modes sample_df)) \<union> set (snd (split_modes sample_df))"
    by (simp add: split_modes_sample)
  from split_modes_disjoint [of sample_df] zero hd
  have "sample_row ''EE'' ''Hyderabad'' 0 0 \<notin> set (fst (split_modes sample_df)) \<and>
      sample_row ''EE'' ''Hyderabad'' 0 0 \<notin> set (snd (split_modes sample_df))"
    and "(GATE_Score (sample_row ''EE'' ''Goa'' 0 55) > 0) \<noteq>
     (GATE_Score (sample_row ''EE'' ''Goa'' 0 55) = 0 \<and> HD_Score (sample_row ''EE'' ''Goa'' 0 55) > 0)"
    by blast+
  then show ?thesis using zero mem hd by blast
qed

section \<open>The filter engine\<close>

lemma apply_filters_sample_drill:
  "apply_filters (sample_filters [''CS'', ''EE''] [''Goa''] ''CS'') sample_df =
     [sample_row ''CS'' ''Goa'' 60 0, sample_row ''CS'' ''Goa'' 60 0]"
  by (simp add: apply_filters_def sample_filters_def sample_df_def sample_row_def)

text \<open>
  C5. The filter keeps exactly the records whose branch is among the selected branches and
  whose campus is among the selected campuses and, when a drilldown is selected (the
  selection is not \<^verbatim>\<open>All branches\<close>), whose branch is the drilldown; the records kept stay
  in order. With no branch or no campus selected the result is empty.
\<close>

theorem apply_filters_matches:
  "apply_filters f df =
     filter (\<lambda>r. ME_Branch r \<in> set (branch_filter f) \<and> Campus r \<in> set (campus_filter f) \<and>
                 (branch_drill f \<noteq> ''All branches'' \<longrightarrow> ME_Branch r = branch_drill f)) df \<and>
   (branch_filter f = [] \<or> campus_filter f = [] \<longrightarrow> apply_filters f df = [])"
  by (auto simp add: apply_filters_def Let_def intro: filter_cong)

theorem apply_filters_matches_witness:
  "branch_filter (sample_filters [] [''Goa''] ''All branches'') = [] \<and>
   apply_filters (sample_filters [] [''Goa''] ''All branches'') sample_df = [] \<and>
   branch_drill (sample_filters [''CS'', ''EE''] [''Goa''] ''CS'') \<noteq> ''All branches'' \<and>
   filter (\<lambda>r. ME_Branch r \<in> {''CS'', ''EE''} \<and> Campus r \<in> {''Goa''} \<and> ME_Branch r = ''CS'')
     sample_df = [sample_row ''CS'' ''Goa'' 60 0, sample_row ''CS'' ''Goa'' 60 0]"
proof -
  have e: "branch_filter (sample_filters [] [''Goa''] ''All branches'') = []"
    by (simp add: sample_filters_def)
  with apply_filters_matches [of "sample_filters [] [''Goa''] ''All branches''" sample_df]
  have empty: "apply_filters (sample_filters [] [''Goa''] ''All branches'') sample_df = []"
    by blast
  have d: "branch_drill (sample_filters [''CS'', ''EE''] [''Goa''] ''CS'') \<noteq> ''All branches''"
    by (simp add: sample_filters_def)
  from apply_filters_matches [of "sample_filters [''CS'', ''EE''] [''Goa''] ''CS''" sample_df]
  have "filter (\<lambda>r. ME_Branch r \<in> {''CS'', ''EE''} \<and> Campus r \<in> {''Goa''} \<and> ME_Branch r = ''CS'')
     sample_df = [sample_row ''CS'' ''Goa'' 60 0, sample_row ''CS'' ''Goa'' 60 0]"
    unfolding apply_filters_sample_drill by (simp add: sample_filters_def)
  then show ?thesis using e empty d by blast
qed

text \<open>
  C6. For two compatible configurations (their drilldowns do not contradict each other),
  filtering with the first and then with the second gives the same table as filtering
  once with the merged configuration, which intersects the branch selections and the
  campus selections and takes the drilldown that is set.
\<close>

theorem apply_filters_compose:
  assumes "compatible f1 f2"
  shows "apply_filters f2 (apply_filters f1 X) = apply_filters (merge f1 f2) X"
  using assms
  by (auto simp add: apply_filters_def compatible_def merge_def drill_set_def Let_def
      intro!: filter_cong)

theorem apply_filters_compose_witness:
  "compatible (sample_filters [''CS'', ''EE''] [''Goa'', ''Pilani''] ''All branches'')
     (sample_filters [''CS''] [''Goa'', ''Hyderabad''] ''CS'') \<and>
   apply_filters (sample_filters [''CS''] [''Goa'', ''Hyderabad''] ''CS'')
     (apply_filters (sample_filters [''CS'', ''EE''] [''Goa'', ''Pilani''] ''All branches'') sample_df) =
   apply_filters
     (merge (sample_filters [''CS'', ''EE''] [''Goa'', ''Pilani''] ''All branches'')
        (sample_filters [''CS''] [''Goa'', ''Hyderabad''] ''CS'')) sample_df \<and>
   apply_filters
     (merge (sample_filters [''CS'', ''EE''] [''Goa'', ''Pilani''] ''All branches'')
        (sample_filters [''CS''] [''Goa'', ''Hyderabad''] ''CS'')) sample_df =
   [sample_row ''CS'' ''Goa'' 60 0, sample_row ''CS'' ''Goa'' 60 0]"
proof -
  have c: "compatible (sample_filters [''CS'', ''EE''] [''Goa'', ''Pilani''] ''All branches'')
     (sample_filters [''CS''] [''Goa'', ''Hyderabad''] ''CS'')"
    by (simp add: compatible_def drill_set_def sample_filters_def)
  have m: "apply_filters
     (merge (sample_filters [''CS'', ''EE''] [''Goa'', ''Pilani''] ''All branches'')
        (sample_filters [''CS''] [''Goa'', ''Hyderabad''] ''CS'')) sample_df =
     [sample_row ''CS'' ''Goa'' 60 0, sample_row ''CS'' ''Goa'' 60 0]"
    by (simp add: apply_filters_def merge_def drill_set_def sample_filters_def sample_df_def
        sample_row_def)
  show ?thesis using c apply_filters_compose [OF c, of sample_df] m by blast
qed

text \<open>
  Compatibility is needed: with two different drilldowns the second filter empties the
  table, and no drilldown of a merged configuration does.
\<close>

lemma apply_filters_compose_incompatible:
  "\<not> compatible (sample_filters [''CS'', ''EE''] [''Goa''] ''CS'')
       (sample_filters [''CS'', ''EE''] [''Goa''] ''EE'') \<and>
   apply_filters (sample_filters [''CS'', ''EE''] [''Goa''] ''EE'')
     (apply_filters (sample_filters [''CS'', ''EE''] [''Goa''] ''CS'') sample_df) = [] \<and>
   apply_filters
     (merge (sample_filters [''CS'', ''EE''] [''Goa''] ''CS'')
        (sample_filters [''CS'', ''EE''] [''Goa''] ''EE'')) sample_df \<noteq> []"
  by (simp add: compatible_def apply_filters_def merge_def drill_set_def sample_filters_def
      sample_df_def sample_row_def)

section \<open>The aggregator\<close>


lemma two_decimals_near:
  assumes "two_decimals format_mean"
  shows "\<bar>format_mean x - x\<bar> \<le> 1 / 200"
  using assms unfolding two_decimals_def by blast


text \<open>
  At a tie the rounding is one of the two neighbouring hundredths: the mean of 30 and
  30.01 is shown as 30 or as 30.01.
\<close>

lemma two_decimals_tie:
  assumes "two_decimals format_mean"
  shows "format_mean (6001 / 200) = 30 \<or> format_mean (6001 / 200) = 3001 / 100"
proof -
  from assms obtain k :: int where k: "format_mean (6001 / 200) = of_int k / 100"
    unfolding two_decimals_def by blast
  have "\<bar>(of_int k :: rat) / 100 - 6001 / 200\<bar> \<le> 1 / 200"
    using two_decimals_near [OF assms, of "6001 / 200"] unfolding k .
  then have "(of_int (3000::int) :: rat) \<le> of_int k \<and> (of_int k :: rat) \<le> of_int (3001::int)"
    by (simp add: field_simps abs_le_iff)
  then have "3000 \<le> k \<and> k \<le> 3001"
    unfolding of_int_le_iff .
  then have "k = 3000 \<or> k = 3001" by arith
  then show ?thesis using k by auto
qed













section \<open>The views\<close>

lemma groupby_Nil: "groupby key [] = []"
  by (simp add: groupby_def)

lemma aggregates_Nil:
  "cutoff format_mean score [] = []" "branch_mean format_mean score [] = []"
  "campus_branch [] = []" "branch_counts [] = []"
  by (simp_all add: cutoff_def branch_mean_def campus_branch_def branch_counts_def groupby_Nil)

text \<open>The metrics of a tab are computed only on a column that is not empty, so they are numbers.\<close>

lemma py_int_series:
  "col \<noteq> [] \<Longrightarrow> \<exists>hi lo. py_int (series_max col) = Inr hi \<and> py_int (series_min col) = Inr lo"
  by (simp add: py_int_def series_max_def series_min_def)

lemma tab_gate_no_error: "\<exists>page. tab_gate format_mean f bins gate_df = Inr page"
proof (cases "apply_filters f gate_df = []")
  case True
  then show ?thesis by (simp add: tab_gate_def)
next
  case False
  then have "map GATE_Score (apply_filters f gate_df) \<noteq> []" by simp
  from py_int_series [OF this] obtain hi lo where
    "py_int (series_max (map GATE_Score (apply_filters f gate_df))) = Inr hi"
    "py_int (series_min (map GATE_Score (apply_filters f gate_df))) = Inr lo"
    by blast
  then show ?thesis using False by (simp add: tab_gate_def Let_def)
qed

lemma tab_hd_no_error: "\<exists>page. tab_hd format_mean f bins hd_df = Inr page"
proof (cases "apply_filters f hd_df = []")
  case True
  then show ?thesis by (simp add: tab_hd_def)
next
  case False
  then have "map HD_Score (apply_filters f hd_df) \<noteq> []" by simp
  from py_int_series [OF this] obtain hi lo where
    "py_int (series_max (map HD_Score (apply_filters f hd_df))) = Inr hi"
    "py_int (series_min (map HD_Score (apply_filters f hd_df))) = Inr lo"
    by blast
  then show ?thesis using False by (simp add: tab_hd_def Let_def)
qed

text \<open>
  With a data file that holds a row the run reaches its last line. The raw table under the
  tabs is a view of its own: it is the last element of the page, also when it has no row.
\<close>

lemma app_renders:
  assumes "data_file s = Some raw_rows" and "raw_rows \<noteq> []"
  shows "\<exists>page combined. app format_mean s =
           Rendered (page @ [Heading ''Raw Data (after filters)'', RawTable combined])"
proof -
  obtain gate_df hd_df where sp: "split_modes (load_data raw_rows) = (gate_df, hd_df)"
    by (cases "split_modes (load_data raw_rows)")
  obtain r rs where rows: "raw_rows = r # rs"
    using assms(2) by (cases raw_rows) auto
  obtain gp where gp: "tab_gate format_mean (sidebar s) (gate_bins s) gate_df = Inr gp"
    using tab_gate_no_error by blast
  obtain hp where hp: "tab_hd format_mean (sidebar s) (hd_bins s) hd_df = Inr hp"
    using tab_hd_no_error by blast
  have "\<exists>top combined. app format_mean s =
      Rendered (top @ gp @ hp @ [Heading ''Raw Data (after filters)'', RawTable combined])"
    using sp gp hp unfolding rows by (simp add: app_def assms(1) rows Let_def)
  then obtain top combined where
    "app format_mean s = Rendered ((top @ gp @ hp) @ [Heading ''Raw Data (after filters)'', RawTable combined])"
    by auto
  then show ?thesis by blast
qed

text \<open>
  C8. When the filtered subset of a tab is empty, the tab shows its header and the
  informational "no ... match the current filters" message and nothing else: no metric,
  chart or table, and no error. The aggregates over the empty subset (cutoff table, branch
  means, campus and branch counts) are empty.
\<close>

theorem empty_subset_no_data:
  "(apply_filters f gate_df = [] \<longrightarrow>
      tab_gate format_mean f bins gate_df =
        Inr [Heading ''GATE Admissions Analysis'',
             Info ''No GATE admissions match the current filters.''] \<and>
      gate_cutoff format_mean (apply_filters f gate_df) = [] \<and>
      branch_mean format_mean GATE_Score (apply_filters f gate_df) = [] \<and>
      campus_branch (apply_filters f gate_df) = [] \<and>
      branch_counts (apply_filters f gate_df) = []) \<and>
   (apply_filters f hd_df = [] \<longrightarrow>
      tab_hd format_mean f bins_hd hd_df =
        Inr [Heading ''BITS-HD Test Admissions Analysis'',
             Info ''No BITS-HD test admissions match the current filters.''] \<and>
      hd_cutoff format_mean (apply_filters f hd_df) = [] \<and>
      branch_mean format_mean HD_Score (apply_filters f hd_df) = [] \<and>
      campus_branch (apply_filters f hd_df) = [] \<and>
      branch_counts (apply_filters f hd_df) = [])"
  by (simp add: tab_gate_def tab_hd_def gate_cutoff_def hd_cutoff_def aggregates_Nil)

theorem empty_subset_no_data_witness:
  "apply_filters (sample_filters [] [''Goa''] ''All branches'') sample_df = [] \<and>
   tab_gate sample_round (sample_filters [] [''Goa''] ''All branches'') 25 sample_df =
     Inr [Heading ''GATE Admissions Analysis'',
          Info ''No GATE admissions match the current filters.''] \<and>
   tab_hd sample_round (sample_filters [] [''Goa''] ''All branches'') 20 sample_df =
     Inr [Heading ''BITS-HD Test Admissions Analysis'',
          Info ''No BITS-HD test admissions match the current filters.'']"
proof -
  have e: "apply_filters (sample_filters [] [''Goa''] ''All branches'') sample_df = []"
    by (simp add: apply_filters_def sample_filters_def)
  show ?thesis
    using e empty_subset_no_data
      [of "sample_filters [] [''Goa''] ''All branches''" sample_df sample_round 25 sample_df 20]
    by blast
qed

text \<open>
  C9. When there is no data file at the configured path, the run shows the error
  "Data file not found: bits_hd_2024_clean.json" and is halted there: nothing is loaded
  and nothing else is put on the page.
\<close>

theorem missing_file_halts:
  assumes "data_file s = None"
  shows "app format_mean s = Stopped [Error ''Data file not found: bits_hd_2024_clean.json'']"
  using assms by (simp add: app_def DATA_PATH_def)

theorem missing_file_halts_witness:
  "data_file \<lparr> data_file = (None :: unit raw_row list option), selected_mode = ''All'',
       sidebar = sample_filters [''CS''] [''Goa''] ''All branches'',
       gate_bins = 25, hd_bins = 20 \<rparr> = None \<and>
   app sample_round \<lparr> data_file = (None :: unit raw_row list option), selected_mode = ''All'',
       sidebar = sample_filters [''CS''] [''Goa''] ''All branches'',
       gate_bins = 25, hd_bins = 20 \<rparr> =
     Stopped [Error ''Data file not found: bits_hd_2024_clean.json'']"
proof -
  let ?s = "\<lparr> data_file = (None :: unit raw_row list option), selected_mode = ''All'',
       sidebar = sample_filters [''CS''] [''Goa''] ''All branches'',
       gate_bins = 25, hd_bins = 20 \<rparr>"
  have n: "data_file ?s = None" by simp
  from n missing_file_halts [OF n, of sample_round] show ?thesis by (rule conjI)
qed

text \<open>
  C10. A missing GATE, HD Core or HD SS field is parsed to 0, as a text without a digit
  is: replacing a missing score field of a record by such a text, or the other way round,
  does not change the normalized record.
\<close>

theorem missing_is_zero:
  "clean_numeric Missing = 0 \<and>
   (\<not> list_ex is_digit s \<longrightarrow>
      clean_numeric (Text s) = clean_numeric Missing \<and>
      normalize (r\<lparr>GATE_Score_raw := Text s\<rparr>) = normalize (r\<lparr>GATE_Score_raw := Missing\<rparr>) \<and>
      normalize (r\<lparr>HD_Core_raw := Text s\<rparr>) = normalize (r\<lparr>HD_Core_raw := Missing\<rparr>) \<and>
      normalize (r\<lparr>HD_SS_raw := Text s\<rparr>) = normalize (r\<lparr>HD_SS_raw := Missing\<rparr>))"
proof -
  have m: "clean_numeric Missing = 0"
    by (simp add: clean_numeric_def is_digit_def)
  have t: "clean_numeric (Text s) = 0" if "\<not> list_ex is_digit s"
    using that clean_numeric_no_digit [of "Text s"] by simp
  show ?thesis
    using m t by (simp add: normalize_def)
qed

theorem missing_is_zero_witness:
  "\<not> list_ex is_digit ''n/a'' \<and>
   clean_numeric (Text ''n/a'') = 0 \<and>
   normalize (sample_raw\<lparr>HD_SS_raw := Text ''n/a''\<rparr>) = normalize sample_raw"
proof -
  have n: "\<not> list_ex is_digit ''n/a''" by (simp add: is_digit_def)
  have s: "sample_raw\<lparr>HD_SS_raw := Missing\<rparr> = sample_raw" by (simp add: sample_raw_def)
  from missing_is_zero [of "''n/a''" sample_raw] n
  have "clean_numeric (Text ''n/a'') = 0"
    and "normalize (sample_raw\<lparr>HD_SS_raw := Text ''n/a''\<rparr>) =
      normalize (sample_raw\<lparr>HD_SS_raw := Missing\<rparr>)"
    by simp_all
  then show ?thesis using n s by simp
qed

end
